theory Spec2Isabelle
  imports Complex_Main
begin

section \<open>JavaScript values used by the services\<close>

text \<open>
  The deposit monitor is a set of JavaScript modules with module-level mutable state.
  Each module-level variable becomes a field of an explicit state, each function takes
  the state and returns the new one, and the result of every awaited HTTP call is an
  argument of the function that awaits it.

  Provider answers and directory records are typed by the fields the services read from
  them: a field the code dereferences without a test is present, a field it tests first
  is optional. Answers outside these types, on which a property access would throw, are
  not covered. Values of these types on which the code throws are covered: a timestamp
  outside the range of \<open>Date\<close> makes \<open>toISOString\<close> throw.
\<close>

datatype js_error = ReferenceError | RangeError

text \<open>
  \<open>new Date(ms).toISOString()\<close>: a time value above 8640000000000000 milliseconds
  gives an invalid date, and \<open>toISOString\<close> throws a RangeError on it.
\<close>

definition toISOString :: "nat \<Rightarrow> js_error + nat" where
  "toISOString ms = (if ms \<le> 8640000000000000 then Inr ms else Inl RangeError)"

text \<open>\<open>String.prototype.toLowerCase\<close> on the ASCII addresses the services compare.\<close>

definition lower_char :: "char \<Rightarrow> char" where
  "lower_char c =
     (case map_of (zip ''ABCDEFGHIJKLMNOPQRSTUVWXYZ'' ''abcdefghijklmnopqrstuvwxyz'') c of
        Some l \<Rightarrow> l
      | None \<Rightarrow> c)"

definition toLowerCase :: "string \<Rightarrow> string" where
  "toLowerCase s = map lower_char s"

text \<open>
  Truthiness of a user id as \<open>if (userId)\<close> tests it: \<open>null\<close> and the empty
  string are falsy.
\<close>

fun truthy :: "string option \<Rightarrow> bool" where
  "truthy None = False"
| "truthy (Some s) = (s \<noteq> [])"

section \<open>Address directory (addressService)\<close>

record grouped =
  bep20 :: "string list"
  trc20 :: "string list"
  btc :: "string list"

text \<open>One entry of \<open>state.addressDetails\<close>: a user and that user's address per network.\<close>

record wallet =
  w_userId :: string
  w_bep20 :: string
  w_trc20 :: string
  w_btc :: string

record directory =
  addresses :: grouped
  addressDetails :: "wallet list"

text \<open>
  The body of the identity authority's answer, with the fields as the service reads them:
  \<open>data.success\<close>, \<open>data.data.grouped\<close> and \<open>data.data.detailed\<close>.
\<close>

record address_payload =
  success :: bool
  bep20Addresses :: "string list"
  trc20Addresses :: "string list"
  btcAddresses :: "string list"
  detailed :: "wallet list"

datatype 'a http = NetworkError | Response 'a

definition initial_directory :: directory where
  "initial_directory =
     \<lparr>addresses = \<lparr>bep20 = [], trc20 = [], btc = []\<rparr>, addressDetails = []\<rparr>"

text \<open>
  \<open>fetchAddresses\<close>: a rejected request (the catch block) and a false success flag
  return \<open>false\<close> before any assignment. Otherwise \<open>state.addresses\<close> and
  \<open>state.addressDetails\<close> are assigned one after the other, with no await between
  them, and the call returns \<open>true\<close>.
\<close>

definition fetchAddresses :: "address_payload http \<Rightarrow> directory \<Rightarrow> bool \<times> directory" where
  "fetchAddresses response st =
     (case response of
        NetworkError \<Rightarrow> (False, st)
      | Response d \<Rightarrow>
          if \<not> success d then (False, st)
          else
            (True,
             st\<lparr>addresses :=
                  \<lparr>bep20 = bep20Addresses d, trc20 = trc20Addresses d, btc = btcAddresses d\<rparr>,
                addressDetails := detailed d\<rparr>))"

definition getAddresses :: "directory \<Rightarrow> grouped" where
  "getAddresses st = addresses st"

definition getUserIdForAddress :: "directory \<Rightarrow> string \<Rightarrow> string \<Rightarrow> string option" where
  "getUserIdForAddress st address network =
     (let normalizedAddress = toLowerCase address in
      case find (\<lambda>w.
             if network = ''bep20'' then toLowerCase (w_bep20 w) = normalizedAddress
             else if network = ''trc20'' then toLowerCase (w_trc20 w) = normalizedAddress
             else if network = ''btc'' then toLowerCase (w_btc w) = normalizedAddress
             else False) (addressDetails st) of
        Some w \<Rightarrow> Some (w_userId w)
      | None \<Rightarrow> None)"

section \<open>The canonical deposit\<close>

text \<open>
  The object every watcher builds. Amounts are JavaScript numbers; the model computes the
  same expressions over the rationals. A timestamp is the instant that
  \<open>toISOString\<close> prints, in milliseconds since the epoch.
\<close>

record deposit =
  userId :: string
  dep_type :: string
  asset :: string
  network :: string
  amount :: rat
  txHash :: string
  from_address :: string
  to_address :: string
  timestamp :: nat
  confirmations :: nat

text \<open>
  The catch block of every polling \<open>checkAddress\<close>: a throw inside the try block
  returns the empty array. The local \<open>deposits\<close> array is dropped; what the loop
  added to \<open>processedTxs\<close> before the throw stays.
\<close>

definition catch_empty :: "(js_error + deposit list) \<times> string set \<Rightarrow> deposit list \<times> string set" where
  "catch_empty r = (case fst r of Inl e \<Rightarrow> ([], snd r) | Inr deposits \<Rightarrow> (deposits, snd r))"

section \<open>UTXO watcher, polling only (services/btcService.js)\<close>

text \<open>A transaction of the history provider: outputs and inputs carry address lists.\<close>

record btc_output =
  out_addresses :: "string list option"
  out_value :: int

record btc_tx =
  btc_hash :: string
  btc_outputs :: "btc_output list"
  btc_inputs :: "string list option list"
  btc_received :: nat
  btc_confirmations :: nat

text \<open>\<open>tx.inputs[0]?.addresses?.[0] || 'unknown'\<close>\<close>

fun first_input_address :: "string list option list \<Rightarrow> string" where
  "first_input_address [] = ''unknown''"
| "first_input_address (None # _) = ''unknown''"
| "first_input_address (Some [] # _) = ''unknown''"
| "first_input_address (Some (a # _) # _) = (if a = [] then ''unknown'' else a)"

text \<open>\<open>x || 1\<close> on a confirmation count: zero is falsy.\<close>

definition or_one :: "nat \<Rightarrow> nat" where
  "or_one c = (if c = 0 then 1 else c)"

definition receivedOutputs :: "string \<Rightarrow> btc_tx \<Rightarrow> btc_output list" where
  "receivedOutputs address tx =
     filter (\<lambda>output. case out_addresses output of
                         None \<Rightarrow> False
                       | Some as \<Rightarrow> address \<in> set as) (btc_outputs tx)"

definition totalReceived :: "string \<Rightarrow> btc_tx \<Rightarrow> int" where
  "totalReceived address tx = foldl (\<lambda>sum output. sum + out_value output) 0 (receivedOutputs address tx)"

text \<open>
  The loop of \<open>checkAddress\<close> over the returned transactions. It runs without an await,
  so the pair of the local \<open>deposits\<close> array and the module's \<open>processedTxs\<close> set is
  threaded through it. The log line of a found deposit formats \<open>tx.received\<close> before the
  deposit is pushed and its hash added; a throw there leaves the loop with the set as it
  is at that moment.
\<close>

fun btc_scan ::
  "directory \<Rightarrow> string \<Rightarrow> btc_tx list \<Rightarrow> string set \<Rightarrow> (js_error + deposit list) \<times> string set" where
  "btc_scan dir address [] processedTxs = (Inr [], processedTxs)"
| "btc_scan dir address (tx # txs) processedTxs =
     (if btc_hash tx \<in> processedTxs then btc_scan dir address txs processedTxs
      else if receivedOutputs address tx = [] then btc_scan dir address txs processedTxs
      else
        (let amountBtc = of_int (totalReceived address tx) / 100000000;
             uid = getUserIdForAddress dir address ''btc''
         in if truthy uid then
              (case toISOString (btc_received tx) of
                 Inl e \<Rightarrow> (Inl e, processedTxs)
               | Inr time \<Rightarrow>
                   (let d = \<lparr>userId = the uid, dep_type = ''deposit'', asset = ''btc'',
                             network = ''btc'', amount = amountBtc, txHash = btc_hash tx,
                             from_address = first_input_address (btc_inputs tx),
                             to_address = address, timestamp = time,
                             confirmations = or_one (btc_confirmations tx)\<rparr>;
                        (r, p) = btc_scan dir address txs (insert (btc_hash tx) processedTxs)
                    in (case r of Inl e \<Rightarrow> Inl e | Inr ds \<Rightarrow> Inr (d # ds), p)))
            else btc_scan dir address txs processedTxs))"

text \<open>
  \<open>checkAddress\<close>: a rejected request and a body without \<open>txs\<close> give the empty
  array, and so does a throw in the loop.
\<close>

definition btc_checkAddress ::
  "directory \<Rightarrow> string \<Rightarrow> btc_tx list option http \<Rightarrow> string set \<Rightarrow> deposit list \<times> string set" where
  "btc_checkAddress dir address response processedTxs =
     (case response of
        NetworkError \<Rightarrow> ([], processedTxs)
      | Response None \<Rightarrow> ([], processedTxs)
      | Response (Some transactions) \<Rightarrow>
          catch_empty (btc_scan dir address transactions processedTxs))"

section \<open>UTXO watcher with price lookup and push channel (second btcService module)\<close>

text \<open>
  \<open>getBtcPrice\<close> returns the quoted price, or \<open>null\<close> when the request fails.
  \<open>amountBt * btcPrice\<close> with \<open>null\<close> is a multiplication by zero.
\<close>

definition getBtcPrice :: "rat http \<Rightarrow> rat option" where
  "getBtcPrice response = (case response of NetworkError \<Rightarrow> None | Response usd \<Rightarrow> Some usd)"

definition times_price :: "rat \<Rightarrow> rat option \<Rightarrow> rat" where
  "times_price x btcPrice = (case btcPrice of None \<Rightarrow> x * 0 | Some p \<Rightarrow> x * p)"

fun btc_rt_scan ::
  "directory \<Rightarrow> string \<Rightarrow> rat option \<Rightarrow> btc_tx list \<Rightarrow> string set
     \<Rightarrow> (js_error + deposit list) \<times> string set" where
  "btc_rt_scan dir address btcPrice [] processedTxs = (Inr [], processedTxs)"
| "btc_rt_scan dir address btcPrice (tx # txs) processedTxs =
     (if btc_hash tx \<in> processedTxs then btc_rt_scan dir address btcPrice txs processedTxs
      else if receivedOutputs address tx = [] then btc_rt_scan dir address btcPrice txs processedTxs
      else
        (let amountBt = of_int (totalReceived address tx) / 100000000;
             amountBtc = times_price amountBt btcPrice;
             uid = getUserIdForAddress dir address ''btc''
         in if truthy uid then
              (case toISOString (btc_received tx) of
                 Inl e \<Rightarrow> (Inl e, processedTxs)
               | Inr time \<Rightarrow>
                   (let d = \<lparr>userId = the uid, dep_type = ''deposit'', asset = ''btc'',
                             network = ''btc'', amount = amountBtc, txHash = btc_hash tx,
                             from_address = first_input_address (btc_inputs tx),
                             to_address = address, timestamp = time,
                             confirmations = or_one (btc_confirmations tx)\<rparr>;
                        (r, p) = btc_rt_scan dir address btcPrice txs
                                   (insert (btc_hash tx) processedTxs)
                    in (case r of Inl e \<Rightarrow> Inl e | Inr ds \<Rightarrow> Inr (d # ds), p)))
            else btc_rt_scan dir address btcPrice txs processedTxs))"

definition btc_rt_checkAddress ::
  "directory \<Rightarrow> string \<Rightarrow> btc_tx list option http \<Rightarrow> rat http \<Rightarrow> string set
     \<Rightarrow> deposit list \<times> string set" where
  "btc_rt_checkAddress dir address response priceResponse processedTxs =
     (case response of
        NetworkError \<Rightarrow> ([], processedTxs)
      | Response None \<Rightarrow> ([], processedTxs)
      | Response (Some transactions) \<Rightarrow>
          catch_empty
            (btc_rt_scan dir address (getBtcPrice priceResponse) transactions processedTxs))"

text \<open>
  A frame of the push channel (\<open>message.x\<close>): outputs carry one address each, inputs
  the address of the output they spend.
\<close>

record btc_push_output =
  po_addr :: "string option"
  po_value :: int

record btc_push_tx =
  px_hash :: string
  px_out :: "btc_push_output list option"
  px_inputs :: "string option list option"

text \<open>\<open>tx.inputs && tx.inputs[0]?.prev_out?.addr || 'unknown'\<close>\<close>

fun first_prev_out :: "string option list option \<Rightarrow> string" where
  "first_prev_out None = ''unknown''"
| "first_prev_out (Some []) = ''unknown''"
| "first_prev_out (Some (None # _)) = ''unknown''"
| "first_prev_out (Some (Some a # _)) = (if a = [] then ''unknown'' else a)"

text \<open>
  What the identifier \<open>btcPrice\<close> denotes inside \<open>processRealTimeTransaction\<close>.
  The module declares it once, as a \<open>const\<close> local to \<open>checkAddress\<close>; neither the
  module scope nor \<open>processRealTimeTransaction\<close> binds it, so reading it throws a
  ReferenceError (\<open>None\<close>: no binding).
\<close>

definition btcPrice_in_processRealTimeTransaction :: "rat option option" where
  "btcPrice_in_processRealTimeTransaction = None"

text \<open>
  The loop over \<open>tx.out\<close>. A throw leaves the loop at once; the local \<open>deposits\<close>
  array is lost with it.
\<close>

fun btc_rt_outputs ::
  "directory \<Rightarrow> nat \<Rightarrow> btc_push_tx \<Rightarrow> string list \<Rightarrow> btc_push_output list \<Rightarrow> js_error + deposit list" where
  "btc_rt_outputs dir now tx addrs [] = Inr []"
| "btc_rt_outputs dir now tx addrs (output # rest) =
     (case po_addr output of
        None \<Rightarrow> btc_rt_outputs dir now tx addrs rest
      | Some outputAddress \<Rightarrow>
          if outputAddress \<noteq> [] \<and> outputAddress \<in> set addrs then
            (let uid = getUserIdForAddress dir outputAddress ''btc'' in
             if truthy uid then
               (case btcPrice_in_processRealTimeTransaction of
                  None \<Rightarrow> Inl ReferenceError
                | Some btcPrice \<Rightarrow>
                    (let amountBt = of_int (po_value output) / 100000000;
                         amountBtc = times_price amountBt btcPrice;
                         d = \<lparr>userId = the uid, dep_type = ''deposit'', asset = ''btc'',
                              network = ''btc'', amount = amountBtc, txHash = px_hash tx,
                              from_address = first_prev_out (px_inputs tx),
                              to_address = outputAddress, timestamp = now,
                              confirmations = 0\<rparr>
                     in case btc_rt_outputs dir now tx addrs rest of
                          Inl e \<Rightarrow> Inl e
                        | Inr ds \<Rightarrow> Inr (d # ds)))
             else btc_rt_outputs dir now tx addrs rest)
          else btc_rt_outputs dir now tx addrs rest)"

text \<open>
  \<open>processRealTimeTransaction\<close>; \<open>now\<close> is the clock that \<open>new Date()\<close> reads. The
  catch block returns the empty array; the hash is added after the loop, when it found
  deposits.
\<close>

definition btc_rt_processRealTimeTransaction ::
  "directory \<Rightarrow> nat \<Rightarrow> btc_push_tx \<Rightarrow> string set \<Rightarrow> deposit list \<times> string set" where
  "btc_rt_processRealTimeTransaction dir now tx processedTxs =
     (if px_hash tx \<in> processedTxs then ([], processedTxs)
      else
        (case (case px_out tx of
                 None \<Rightarrow> Inr []
               | Some outs \<Rightarrow> btc_rt_outputs dir now tx (btc (getAddresses dir)) outs) of
           Inl e \<Rightarrow> ([], processedTxs)
         | Inr deposits \<Rightarrow>
             (deposits,
              if length deposits > 0 then insert (px_hash tx) processedTxs else processedTxs)))"

section \<open>Account-chain-B watcher (trc20Service)\<close>

record trc_tx =
  token_address :: string
  token_decimals :: "nat option"
  trc_value :: int
  trc_to :: string
  trc_from :: string
  transaction_id :: string
  block_timestamp :: nat
  trc_confirmations :: "nat option"

record trc_payload =
  trc_success :: bool
  trc_data :: "trc_tx list option"

definition TRC20_USDT_CONTRACT :: string where
  "TRC20_USDT_CONTRACT = ''TR7NHqjeKQxGTCi8q8ZY4pL8otSzgjLj6t''"

text \<open>\<open>x || d\<close> on a number that may be missing: \<open>undefined\<close> and zero are falsy.\<close>

definition js_or :: "nat option \<Rightarrow> nat \<Rightarrow> nat" where
  "js_or x d = (case x of None \<Rightarrow> d | Some v \<Rightarrow> if v = 0 then d else v)"

fun trc20_scan ::
  "directory \<Rightarrow> string \<Rightarrow> trc_tx list \<Rightarrow> string set \<Rightarrow> (js_error + deposit list) \<times> string set" where
  "trc20_scan dir address [] processedTxs = (Inr [], processedTxs)"
| "trc20_scan dir address (tx # txs) processedTxs =
     (if token_address tx = TRC20_USDT_CONTRACT \<and> trc_to tx = address
         \<and> transaction_id tx \<notin> processedTxs then
        (let uid = getUserIdForAddress dir address ''trc20'' in
         if truthy uid then
           (let decimals = js_or (token_decimals tx) 6;
                amount = of_int (trc_value tx) / 10 ^ decimals
            in case toISOString (block_timestamp tx) of
                 Inl e \<Rightarrow> (Inl e, processedTxs)
               | Inr time \<Rightarrow>
                   (let d = \<lparr>userId = the uid, dep_type = ''deposit'', asset = ''usdt'',
                             network = ''trc20'', amount = amount, txHash = transaction_id tx,
                             from_address = trc_from tx, to_address = trc_to tx,
                             timestamp = time,
                             confirmations = js_or (trc_confirmations tx) 1\<rparr>;
                        (r, p) = trc20_scan dir address txs
                                   (insert (transaction_id tx) processedTxs)
                    in (case r of Inl e \<Rightarrow> Inl e | Inr ds \<Rightarrow> Inr (d # ds), p)))
         else trc20_scan dir address txs processedTxs)
      else trc20_scan dir address txs processedTxs)"

definition trc20_checkAddress ::
  "directory \<Rightarrow> string \<Rightarrow> trc_payload http \<Rightarrow> string set \<Rightarrow> deposit list \<times> string set" where
  "trc20_checkAddress dir address response processedTxs =
     (case response of
        NetworkError \<Rightarrow> ([], processedTxs)
      | Response d \<Rightarrow>
          if \<not> trc_success d then ([], processedTxs)
          else catch_empty
                 (trc20_scan dir address (case trc_data d of None \<Rightarrow> [] | Some l \<Rightarrow> l)
                    processedTxs))"

section \<open>Account-chain-A watcher (bep20Service)\<close>

record bsc_tx =
  contractAddress :: string
  bsc_to :: string
  bsc_from :: string
  bsc_hash :: string
  bsc_value :: int
  timeStamp :: nat
  bsc_confirmations :: nat

record bsc_payload =
  status :: string
  result :: "bsc_tx list option"

definition BEP20_USDT_CONTRACT :: string where
  "BEP20_USDT_CONTRACT = ''0x55d398326f99059ff775485246999027b3197955''"

fun bep20_scan ::
  "directory \<Rightarrow> string \<Rightarrow> bsc_tx list \<Rightarrow> string set \<Rightarrow> (js_error + deposit list) \<times> string set" where
  "bep20_scan dir address [] processedTxs = (Inr [], processedTxs)"
| "bep20_scan dir address (tx # txs) processedTxs =
     (if toLowerCase (contractAddress tx) = toLowerCase BEP20_USDT_CONTRACT
         \<and> toLowerCase (bsc_to tx) = toLowerCase address
         \<and> bsc_hash tx \<notin> processedTxs then
        (let uid = getUserIdForAddress dir address ''bep20'' in
         if truthy uid then
           (case toISOString (timeStamp tx * 1000) of
              Inl e \<Rightarrow> (Inl e, processedTxs)
            | Inr time \<Rightarrow>
                (let d = \<lparr>userId = the uid, dep_type = ''deposit'', asset = ''usdt'',
                          network = ''bep20'', amount = of_int (bsc_value tx) / 10 ^ 18,
                          txHash = bsc_hash tx, from_address = bsc_from tx,
                          to_address = bsc_to tx, timestamp = time,
                          confirmations = bsc_confirmations tx\<rparr>;
                     (r, p) = bep20_scan dir address txs (insert (bsc_hash tx) processedTxs)
                 in (case r of Inl e \<Rightarrow> Inl e | Inr ds \<Rightarrow> Inr (d # ds), p)))
         else bep20_scan dir address txs processedTxs)
      else bep20_scan dir address txs processedTxs)"

definition bep20_checkAddress ::
  "directory \<Rightarrow> string \<Rightarrow> bsc_payload http \<Rightarrow> string set \<Rightarrow> deposit list \<times> string set" where
  "bep20_checkAddress dir address response processedTxs =
     (case response of
        NetworkError \<Rightarrow> ([], processedTxs)
      | Response d \<Rightarrow>
          if status d \<noteq> ''1'' then ([], processedTxs)
          else catch_empty
                 (bep20_scan dir address (case result d of None \<Rightarrow> [] | Some l \<Rightarrow> l)
                    processedTxs))"

text \<open>The transfer object the push channel's message handlers build or pass on.\<close>

record bsc_event =
  ev_hash :: string
  ev_from :: string
  ev_to :: string
  ev_contractAddress :: "string option"
  ev_value :: int

definition bep20_processRealTimeTransaction ::
  "directory \<Rightarrow> nat \<Rightarrow> bsc_event \<Rightarrow> string set \<Rightarrow> deposit list \<times> string set" where
  "bep20_processRealTimeTransaction dir now tx processedTxs =
     (if ev_hash tx \<in> processedTxs then ([], processedTxs)
      else if (case ev_contractAddress tx of
                 None \<Rightarrow> False
               | Some c \<Rightarrow> c \<noteq> [] \<and> toLowerCase c = toLowerCase BEP20_USDT_CONTRACT) then
        (let uid = getUserIdForAddress dir (ev_to tx) ''bep20'' in
         if truthy uid then
           (let amount = of_int (ev_value tx) / 10 ^ 18;
                d = \<lparr>userId = the uid, dep_type = ''deposit'', asset = ''usdt'',
                     network = ''bep20'', amount = amount, txHash = ev_hash tx,
                     from_address = ev_from tx, to_address = ev_to tx, timestamp = now,
                     confirmations = 1\<rparr>
            in ([d], insert (ev_hash tx) processedTxs))
         else ([], processedTxs))
      else ([], processedTxs))"

section \<open>Detections over a process lifetime\<close>

text \<open>
  JavaScript runs one callback at a time. A polling \<open>checkAddress\<close> awaits only
  before its loop, and a push handler never awaits, so each of them reads and writes the
  watcher's \<open>processedTxs\<close> in one uninterrupted step, and a process lifetime is a
  sequence of such steps in the order the runtime picks: polls (the scheduled cycle, the
  quick poll, the per-address control endpoints), push events and directory refreshes.
  The watcher starts with an empty set and the empty directory.
\<close>

datatype ('p, 'q) detection = Poll 'p | Push 'q | Refresh "address_payload http"

fun lifetime ::
  "(directory \<Rightarrow> 'p \<Rightarrow> string set \<Rightarrow> deposit list \<times> string set) \<Rightarrow>
   (directory \<Rightarrow> 'q \<Rightarrow> string set \<Rightarrow> deposit list \<times> string set) \<Rightarrow>
   ('p, 'q) detection list \<Rightarrow> directory \<Rightarrow> string set \<Rightarrow> deposit list" where
  "lifetime poll push [] dir processedTxs = []"
| "lifetime poll push (Poll a # es) dir processedTxs =
     (let (ds, p) = poll dir a processedTxs in ds @ lifetime poll push es dir p)"
| "lifetime poll push (Push b # es) dir processedTxs =
     (let (ds, p) = push dir b processedTxs in ds @ lifetime poll push es dir p)"
| "lifetime poll push (Refresh r # es) dir processedTxs =
     lifetime poll push es (snd (fetchAddresses r dir)) processedTxs"

text \<open>
  The deposits each watcher emits over a lifetime. A poll carries the address and what
  the providers answered; a push carries the clock and the frame. The account-chain-B
  watcher has no channel: its second path is the quick poll, which calls
  \<open>checkAddress\<close> as well.
\<close>

definition btc_emitted ::
  "(string \<times> btc_tx list option http \<times> rat http, nat \<times> btc_push_tx) detection list \<Rightarrow> deposit list" where
  "btc_emitted es =
     lifetime (\<lambda>dir (address, response, priceResponse).
                 btc_rt_checkAddress dir address response priceResponse)
              (\<lambda>dir (now, tx). btc_rt_processRealTimeTransaction dir now tx)
              es initial_directory {}"

text \<open>
  The UTXO module without a channel is entered by the scheduled cycle and by the
  per-address control endpoint; both are polls.
\<close>

definition btc_polling_emitted ::
  "(string \<times> btc_tx list option http, string \<times> btc_tx list option http) detection list
     \<Rightarrow> deposit list" where
  "btc_polling_emitted es =
     lifetime (\<lambda>dir (address, response). btc_checkAddress dir address response)
              (\<lambda>dir (address, response). btc_checkAddress dir address response)
              es initial_directory {}"

definition bep20_emitted ::
  "(string \<times> bsc_payload http, nat \<times> bsc_event) detection list \<Rightarrow> deposit list" where
  "bep20_emitted es =
     lifetime (\<lambda>dir (address, response). bep20_checkAddress dir address response)
              (\<lambda>dir (now, tx). bep20_processRealTimeTransaction dir now tx)
              es initial_directory {}"

definition trc20_emitted ::
  "(string \<times> trc_payload http, string \<times> trc_payload http) detection list \<Rightarrow> deposit list" where
  "trc20_emitted es =
     lifetime (\<lambda>dir (address, response). trc20_checkAddress dir address response)
              (\<lambda>dir (address, response). trc20_checkAddress dir address response)
              es initial_directory {}"

section \<open>Aggregator (depositService)\<close>

text \<open>
  What a check cycle does to the outside, in order: each watcher's
  \<open>checkAllAddresses\<close> announces itself on entry, and \<open>processDeposits\<close> posts one
  batch to the delivery boundary.
\<close>

datatype effect = CheckAll string | PostDeposits "deposit list"

record providers =
  bscscan :: "string \<Rightarrow> bsc_payload http"
  trongrid :: "string \<Rightarrow> trc_payload http"
  blockcypher :: "string \<Rightarrow> btc_tx list option http"
  coingecko :: "string \<Rightarrow> rat http"

record monitor =
  snapshot :: directory
  bep20_processedTxs :: "string set"
  trc20_processedTxs :: "string set"
  btc_processedTxs :: "string set"
  effects :: "effect list"

text \<open>
  The loop of every \<open>checkAllAddresses\<close>: \<open>allDeposits.push(...deposits)\<close> for each
  address in turn.
\<close>

fun check_each ::
  "(string \<Rightarrow> string set \<Rightarrow> deposit list \<times> string set) \<Rightarrow> string list \<Rightarrow> string set
     \<Rightarrow> deposit list \<times> string set" where
  "check_each check [] processedTxs = ([], processedTxs)"
| "check_each check (address # rest) processedTxs =
     (let (deposits, p) = check address processedTxs;
          (more, p') = check_each check rest p
      in (deposits @ more, p'))"

definition bep20_checkAllAddresses :: "providers \<Rightarrow> monitor \<Rightarrow> deposit list \<times> monitor" where
  "bep20_checkAllAddresses env m =
     (let m1 = m\<lparr>effects := effects m @ [CheckAll ''bep20'']\<rparr>;
          addrs = bep20 (getAddresses (snapshot m1))
      in if length addrs = 0 then ([], m1)
         else
           (let (allDeposits, p) =
                  check_each (\<lambda>address. bep20_checkAddress (snapshot m1) address (bscscan env address))
                    addrs (bep20_processedTxs m1)
            in (allDeposits, m1\<lparr>bep20_processedTxs := p\<rparr>)))"

definition trc20_checkAllAddresses :: "providers \<Rightarrow> monitor \<Rightarrow> deposit list \<times> monitor" where
  "trc20_checkAllAddresses env m =
     (let m1 = m\<lparr>effects := effects m @ [CheckAll ''trc20'']\<rparr>;
          addrs = trc20 (getAddresses (snapshot m1))
      in if length addrs = 0 then ([], m1)
         else
           (let (allDeposits, p) =
                  check_each (\<lambda>address. trc20_checkAddress (snapshot m1) address (trongrid env address))
                    addrs (trc20_processedTxs m1)
            in (allDeposits, m1\<lparr>trc20_processedTxs := p\<rparr>)))"

definition btc_checkAllAddresses :: "providers \<Rightarrow> monitor \<Rightarrow> deposit list \<times> monitor" where
  "btc_checkAllAddresses env m =
     (let m1 = m\<lparr>effects := effects m @ [CheckAll ''btc'']\<rparr>;
          addrs = btc (getAddresses (snapshot m1))
      in if length addrs = 0 then ([], m1)
         else
           (let (allDeposits, p) =
                  check_each (\<lambda>address. btc_rt_checkAddress (snapshot m1) address
                                           (blockcypher env address) (coingecko env address))
                    addrs (btc_processedTxs m1)
            in (allDeposits, m1\<lparr>btc_processedTxs := p\<rparr>)))"

text \<open>
  \<open>processDeposits\<close> returns at once on an empty array; otherwise it posts the batch.
  Neither a failed request nor a false success flag in the answer changes the state.
\<close>

definition processDeposits :: "deposit list \<Rightarrow> monitor \<Rightarrow> monitor" where
  "processDeposits deposits m =
     (if length deposits = 0 then m
      else m\<lparr>effects := effects m @ [PostDeposits deposits]\<rparr>)"

definition checkDeposits :: "providers \<Rightarrow> monitor \<Rightarrow> deposit list \<times> monitor" where
  "checkDeposits env m =
     (let (bep20Deposits, m1) = bep20_checkAllAddresses env m;
          (trc20Deposits, m2) = trc20_checkAllAddresses env m1;
          (btcDeposits, m3) = btc_checkAllAddresses env m2;
          allDeposits = bep20Deposits @ trc20Deposits @ btcDeposits
      in (allDeposits,
          if length allDeposits > 0 then processDeposits allDeposits m3 else m3))"

section \<open>Push channel lifecycle\<close>

text \<open>
  The module variables \<open>wsConnection\<close> and \<open>wsReconnectTimeout\<close> of a watcher with a
  channel, together with the part of the runtime they refer to: the timeouts that are set
  and not yet fired or cleared (handle and due time, in milliseconds), and the sockets
  that are open. Handles are fresh.
\<close>

record channel =
  wsConnection :: "nat option"
  wsReconnectTimeout :: "nat option"
  timeouts :: "(nat \<times> nat) list"
  sockets :: "nat list"
  next_handle :: nat

definition initial_channel :: channel where
  "initial_channel =
     \<lparr>wsConnection = None, wsReconnectTimeout = None, timeouts = [], sockets = [],
      next_handle = 0\<rparr>"

definition WS_RECONNECT_DELAY :: nat where
  "WS_RECONNECT_DELAY = 5000"

definition clearTimeout :: "nat \<Rightarrow> channel \<Rightarrow> channel" where
  "clearTimeout h c = c\<lparr>timeouts := filter (\<lambda>(h', due). h' \<noteq> h) (timeouts c)\<rparr>"

definition setTimeout :: "nat \<Rightarrow> channel \<Rightarrow> nat \<times> channel" where
  "setTimeout due c =
     (next_handle c,
      c\<lparr>timeouts := timeouts c @ [(next_handle c, due)], next_handle := Suc (next_handle c)\<rparr>)"

text \<open>\<open>reconnectWebSocket\<close>, the same in both watchers; \<open>now\<close> is the time of the call.\<close>

definition reconnectWebSocket :: "nat \<Rightarrow> channel \<Rightarrow> channel" where
  "reconnectWebSocket now c =
     (let c1 = (case wsReconnectTimeout c of Some h \<Rightarrow> clearTimeout h c | None \<Rightarrow> c);
          (h', c2) = setTimeout (now + WS_RECONNECT_DELAY) c1
      in c2\<lparr>wsReconnectTimeout := Some h'\<rparr>)"

text \<open>
  \<open>startWebSocketMonitoring\<close>: terminate the current socket, clear a pending reconnect,
  open a new socket. The UTXO watcher always connects; the account-chain-A watcher
  connects when a provider key is configured and otherwise stays with polling.
\<close>

definition startWebSocketMonitoring :: "bool \<Rightarrow> channel \<Rightarrow> channel" where
  "startWebSocketMonitoring connect c =
     (let c1 = (case wsConnection c of
                  Some s \<Rightarrow> c\<lparr>sockets := removeAll s (sockets c)\<rparr>
                | None \<Rightarrow> c);
          c2 = (case wsReconnectTimeout c1 of
                  Some h \<Rightarrow> (clearTimeout h c1)\<lparr>wsReconnectTimeout := None\<rparr>
                | None \<Rightarrow> c1)
      in if connect then
           c2\<lparr>wsConnection := Some (next_handle c2),
              sockets := sockets c2 @ [next_handle c2],
              next_handle := Suc (next_handle c2)\<rparr>
         else c2)"

text \<open>
  What can happen to a channel: the service is initialised, a socket reports an error,
  a socket closes, a timeout that is due fires and runs its callback (a cleared one never
  does).
\<close>

datatype ws_event = Init | SocketError nat | SocketClose nat nat | TimerFires nat nat

fun ws_step :: "bool \<Rightarrow> ws_event \<Rightarrow> channel \<Rightarrow> channel" where
  "ws_step connect Init c = startWebSocketMonitoring connect c"
| "ws_step connect (SocketError now) c = reconnectWebSocket now c"
| "ws_step connect (SocketClose now s) c =
     reconnectWebSocket now (c\<lparr>sockets := removeAll s (sockets c)\<rparr>)"
| "ws_step connect (TimerFires now h) c =
     (case find (\<lambda>(h', due). h' = h \<and> due \<le> now) (timeouts c) of
        Some _ \<Rightarrow> startWebSocketMonitoring connect (clearTimeout h c)
      | None \<Rightarrow> c)"

definition ws_run :: "bool \<Rightarrow> ws_event list \<Rightarrow> channel \<Rightarrow> channel" where
  "ws_run connect es c = foldl (\<lambda>c e. ws_step connect e c) c es"

fun disconnect_time :: "ws_event \<Rightarrow> nat option" where
  "disconnect_time (SocketError now) = Some now"
| "disconnect_time (SocketClose now s) = Some now"
| "disconnect_time _ = None"

section \<open>Starting and stopping the monitor\<close>

record system =
  monitoringInterval :: "nat option"
  addressRefreshInterval :: "nat option"
  quickPollInterval :: "nat option"
  intervals :: "nat list"
  next_interval :: nat
  btc_ws :: channel
  bep20_ws :: channel

definition initial_system :: system where
  "initial_system =
     \<lparr>monitoringInterval = None, addressRefreshInterval = None, quickPollInterval = None,
      intervals = [], next_interval = 0, btc_ws = initial_channel, bep20_ws = initial_channel\<rparr>"

definition setInterval :: "system \<Rightarrow> nat \<times> system" where
  "setInterval s =
     (next_interval s,
      s\<lparr>intervals := intervals s @ [next_interval s], next_interval := Suc (next_interval s)\<rparr>)"

definition clearInterval :: "nat \<Rightarrow> system \<Rightarrow> system" where
  "clearInterval h s = s\<lparr>intervals := removeAll h (intervals s)\<rparr>"

text \<open>
  \<open>startMonitoring\<close> sets the two intervals. The callback of the first address fetch
  initialises the services (\<open>init_services\<close>); its two flags say whether a push
  provider key for account-chain-A and the key for the account-chain-B quick poll are
  configured.
\<close>

definition startMonitoring :: "system \<Rightarrow> system" where
  "startMonitoring s =
     (let (h1, s1) = setInterval s;
          s2 = s1\<lparr>monitoringInterval := Some h1\<rparr>;
          (h2, s3) = setInterval s2
      in s3\<lparr>addressRefreshInterval := Some h2\<rparr>)"

definition trc20_startRealTimeMonitoring :: "bool \<Rightarrow> system \<Rightarrow> system" where
  "trc20_startRealTimeMonitoring trongrid_key s =
     (let s1 = (case quickPollInterval s of
                  Some h \<Rightarrow> (clearInterval h s)\<lparr>quickPollInterval := None\<rparr>
                | None \<Rightarrow> s)
      in if trongrid_key then
           (let (h, s2) = setInterval s1 in s2\<lparr>quickPollInterval := Some h\<rparr>)
         else s1)"

definition init_services :: "bool \<Rightarrow> bool \<Rightarrow> system \<Rightarrow> system" where
  "init_services moralis_or_bscscan trongrid_key s =
     (let s1 = s\<lparr>bep20_ws := startWebSocketMonitoring moralis_or_bscscan (bep20_ws s)\<rparr>;
          s2 = trc20_startRealTimeMonitoring trongrid_key s1
      in s2\<lparr>btc_ws := startWebSocketMonitoring True (btc_ws s2)\<rparr>)"

text \<open>\<open>stop\<close> of the account-chain-B watcher: it clears the quick poll.\<close>

definition trc20_stop :: "system \<Rightarrow> system" where
  "trc20_stop s =
     (case quickPollInterval s of
        Some h \<Rightarrow> (clearInterval h s)\<lparr>quickPollInterval := None\<rparr>
      | None \<Rightarrow> s)"

text \<open>
  The \<open>stop\<close> property of each service's default export, as
  \<open>typeof service.stop === 'function'\<close> finds it. The exports of the two watchers with
  a channel are \<open>checkAllAddresses\<close>, \<open>checkAddress\<close>, \<open>getProcessedCount\<close>,
  \<open>init\<close> (and \<open>CONTRACT\<close>): they have no \<open>stop\<close>.
\<close>

definition bep20Service_stop :: "(system \<Rightarrow> system) option" where
  "bep20Service_stop = None"

definition trc20Service_stop :: "(system \<Rightarrow> system) option" where
  "trc20Service_stop = Some trc20_stop"

definition btcService_stop :: "(system \<Rightarrow> system) option" where
  "btcService_stop = None"

definition call_if_function :: "(system \<Rightarrow> system) option \<Rightarrow> system \<Rightarrow> system" where
  "call_if_function f s = (case f of Some stop \<Rightarrow> stop s | None \<Rightarrow> s)"

definition stopMonitoring :: "system \<Rightarrow> system" where
  "stopMonitoring s =
     (let s1 = (case monitoringInterval s of
                  Some h \<Rightarrow> (clearInterval h s)\<lparr>monitoringInterval := None\<rparr>
                | None \<Rightarrow> s);
          s2 = (case addressRefreshInterval s1 of
                  Some h \<Rightarrow> (clearInterval h s1)\<lparr>addressRefreshInterval := None\<rparr>
                | None \<Rightarrow> s1);
          s3 = call_if_function bep20Service_stop s2;
          s4 = call_if_function trc20Service_stop s3
      in call_if_function btcService_stop s4)"

section \<open>Properties used in the proofs\<close>

text \<open>
  A detection step never repeats a hash when, from any set, the deposits it returns have
  pairwise different hashes, none of them in the set before, and the set after contains
  the set before and those hashes.
\<close>

definition dedup_step :: "(string set \<Rightarrow> deposit list \<times> string set) \<Rightarrow> bool" where
  "dedup_step f \<longleftrightarrow>
     (\<forall>p. distinct (map txHash (fst (f p))) \<and> txHash ` set (fst (f p)) \<inter> p = {}
          \<and> p \<union> txHash ` set (fst (f p)) \<subseteq> snd (f p))"

text \<open>
  Between two events of a channel, at most the timeout that \<open>wsReconnectTimeout\<close>
  refers to is pending.
\<close>

definition reconnect_inv :: "channel \<Rightarrow> bool" where
  "reconnect_inv c =
     (case timeouts c of
        [] \<Rightarrow> True
      | [(h, due)] \<Rightarrow> wsReconnectTimeout c = Some h
      | _ \<Rightarrow> False)"

section \<open>Scenarios\<close>

text \<open>
  A directory with one user, and one transfer to that user per chain. The account-chain-A
  addresses differ in letter case between the grouped list, the detailed record and the
  provider's answer, as the case-insensitive comparisons allow.
\<close>

definition one_user :: directory where
  "one_user =
     \<lparr>addresses = \<lparr>bep20 = [''0xabc1''], trc20 = [''TXa1''], btc = [''bc1qa'']\<rparr>,
      addressDetails =
        [\<lparr>w_userId = ''u1'', w_bep20 = ''0xABC1'', w_trc20 = ''TXa1'', w_btc = ''bc1qa''\<rparr>]\<rparr>"

definition one_user_payload :: address_payload where
  "one_user_payload =
     \<lparr>success = True, bep20Addresses = [''0xabc1''], trc20Addresses = [''TXa1''],
      btcAddresses = [''bc1qa''],
      detailed =
        [\<lparr>w_userId = ''u1'', w_bep20 = ''0xABC1'', w_trc20 = ''TXa1'', w_btc = ''bc1qa''\<rparr>]\<rparr>"

definition utxo_T1 :: btc_tx where
  "utxo_T1 =
     \<lparr>btc_hash = ''t1'',
      btc_outputs = [\<lparr>out_addresses = Some [''bc1qa''], out_value = 150000000\<rparr>,
                     \<lparr>out_addresses = Some [''bc1qz''], out_value = 7\<rparr>],
      btc_inputs = [Some [''bc1qs'']], btc_received = 1700000000000, btc_confirmations = 3\<rparr>"

text \<open>
  A second transfer per chain whose timestamp lies one step beyond the range of
  \<open>Date\<close>.
\<close>

definition utxo_T2 :: btc_tx where
  "utxo_T2 =
     \<lparr>btc_hash = ''t2'',
      btc_outputs = [\<lparr>out_addresses = Some [''bc1qa''], out_value = 5000\<rparr>],
      btc_inputs = [Some [''bc1qs'']], btc_received = 8640000000000001, btc_confirmations = 1\<rparr>"

definition transfer_R2 :: trc_tx where
  "transfer_R2 =
     \<lparr>token_address = ''TR7NHqjeKQxGTCi8q8ZY4pL8otSzgjLj6t'', token_decimals = Some 6,
      trc_value = 5000000, trc_to = ''TXa1'', trc_from = ''TXf'', transaction_id = ''r2'',
      block_timestamp = 8640000000000001, trc_confirmations = None\<rparr>"

definition transfer_B2 :: bsc_tx where
  "transfer_B2 =
     \<lparr>contractAddress = ''0x55d398326f99059ff775485246999027b3197955'', bsc_to = ''0xabc1'',
      bsc_from = ''0xf'', bsc_hash = ''b2'', bsc_value = 1000000000000000000,
      timeStamp = 8640000000001, bsc_confirmations = 1\<rparr>"

text \<open>The deposit for \<open>utxo_T1\<close> at a given price (1 where no price is applied).\<close>

definition paid :: "rat \<Rightarrow> deposit" where
  "paid price =
     \<lparr>userId = ''u1'', dep_type = ''deposit'', asset = ''btc'', network = ''btc'',
      amount = 3 / 2 * price, txHash = ''t1'', from_address = ''bc1qs'',
      to_address = ''bc1qa'', timestamp = 1700000000000, confirmations = 3\<rparr>"

definition frame_T1 :: btc_push_tx where
  "frame_T1 =
     \<lparr>px_hash = ''t1'',
      px_out = Some [\<lparr>po_addr = Some ''bc1qa'', po_value = 150000000\<rparr>],
      px_inputs = Some [Some ''bc1qs'']\<rparr>"

definition transfer_B1 :: bsc_tx where
  "transfer_B1 =
     \<lparr>contractAddress = ''0x55d398326f99059fF775485246999027B3197955'', bsc_to = ''0xAbC1'',
      bsc_from = ''0xf'', bsc_hash = ''b1'', bsc_value = 2000000000000000000,
      timeStamp = 1700000000, bsc_confirmations = 12\<rparr>"

definition event_B1 :: bsc_event where
  "event_B1 =
     \<lparr>ev_hash = ''b1'', ev_from = ''0xf'', ev_to = ''0xabc1'',
      ev_contractAddress = Some ''0x55d398326f99059ff775485246999027b3197955'',
      ev_value = 2000000000000000000\<rparr>"

definition transfer_R :: "nat option \<Rightarrow> trc_tx" where
  "transfer_R decimals =
     \<lparr>token_address = ''TR7NHqjeKQxGTCi8q8ZY4pL8otSzgjLj6t'', token_decimals = decimals,
      trc_value = 1000000, trc_to = ''TXa1'', trc_from = ''TXf'', transaction_id = ''r1'',
      block_timestamp = 1700000000000, trc_confirmations = None\<rparr>"

text \<open>
  The deposits for \<open>transfer_R\<close> with six decimals and for \<open>event_B1\<close> received at
  time 1700000000123.
\<close>

definition credited :: deposit where
  "credited =
     \<lparr>userId = ''u1'', dep_type = ''deposit'', asset = ''usdt'', network = ''trc20'',
      amount = 1, txHash = ''r1'', from_address = ''TXf'', to_address = ''TXa1'',
      timestamp = 1700000000000, confirmations = 1\<rparr>"

definition notified :: deposit where
  "notified =
     \<lparr>userId = ''u1'', dep_type = ''deposit'', asset = ''usdt'', network = ''bep20'',
      amount = 2, txHash = ''b1'', from_address = ''0xf'', to_address = ''0xabc1'',
      timestamp = 1700000000123, confirmations = 1\<rparr>"

text \<open>
  A check cycle in which only the account-chain-A provider reports a transfer, and the
  deposit the polling path makes from \<open>transfer_B1\<close>.
\<close>

definition one_transfer :: providers where
  "one_transfer =
     \<lparr>bscscan = (\<lambda>address. Response \<lparr>status = ''1'', result = Some [transfer_B1]\<rparr>),
      trongrid = (\<lambda>address. NetworkError),
      blockcypher = (\<lambda>address. Response None),
      coingecko = (\<lambda>address. NetworkError)\<rparr>"

definition fresh_monitor :: monitor where
  "fresh_monitor =
     \<lparr>snapshot = one_user, bep20_processedTxs = {}, trc20_processedTxs = {},
      btc_processedTxs = {}, effects = []\<rparr>"

definition polled :: deposit where
  "polled =
     \<lparr>userId = ''u1'', dep_type = ''deposit'', asset = ''usdt'', network = ''bep20'',
      amount = 2, txHash = ''b1'', from_address = ''0xf'', to_address = ''0xAbC1'',
      timestamp = 1700000000000, confirmations = 12\<rparr>"

text \<open>
  A running monitor with both provider keys configured whose UTXO socket (handle 0)
  closed at time 1000, so that a reconnect is pending.
\<close>

definition stalled_system :: system where
  "stalled_system =
     (let s = init_services True True (startMonitoring initial_system)
      in s\<lparr>btc_ws := ws_step True (SocketClose 1000 0) (btc_ws s)\<rparr>)"

section \<open>Evaluating the services on the scenarios\<close>

lemmas scenario_defs =
  one_user_def one_user_payload_def utxo_T1_def frame_T1_def transfer_B1_def event_B1_def
  transfer_R_def initial_directory_def utxo_T2_def transfer_R2_def transfer_B2_def

lemmas service_defs =
  getUserIdForAddress_def getAddresses_def fetchAddresses_def toLowerCase_def lower_char_def
  receivedOutputs_def totalReceived_def or_one_def js_or_def getBtcPrice_def times_price_def
  btc_checkAddress_def btc_rt_checkAddress_def btc_rt_processRealTimeTransaction_def
  btcPrice_in_processRealTimeTransaction_def trc20_checkAddress_def TRC20_USDT_CONTRACT_def
  bep20_checkAddress_def BEP20_USDT_CONTRACT_def bep20_processRealTimeTransaction_def
  toISOString_def catch_empty_def Let_def

section \<open>Address directory: a failed refresh keeps the snapshot\<close>

text \<open>
  C6. When \<open>fetchAddresses\<close> fails through a network error or through a response whose
  success flag is false, it returns \<open>false\<close> and the state is the one before the call:
  the grouped lists and the detailed records are both unchanged, and \<open>getAddresses\<close>
  returns the prior snapshot.
\<close>

theorem fetchAddresses_failure_keeps_snapshot:
  assumes "response = NetworkError \<or> (\<exists>d. response = Response d \<and> \<not> success d)"
  shows "fetchAddresses response st = (False, st)
         \<and> getAddresses (snd (fetchAddresses response st)) = getAddresses st
         \<and> addressDetails (snd (fetchAddresses response st)) = addressDetails st"
  using assms by (auto simp: fetchAddresses_def)

theorem fetchAddresses_failure_keeps_snapshot_witness:
  "fetchAddresses
     (Response \<lparr>success = False, bep20Addresses = [''0xb''], trc20Addresses = [],
                btcAddresses = [], detailed = []\<rparr>)
     \<lparr>addresses = \<lparr>bep20 = [''0xa''], trc20 = [''T1''], btc = [''bc1'']\<rparr>,
      addressDetails =
        [\<lparr>w_userId = ''u1'', w_bep20 = ''0xa'', w_trc20 = ''T1'', w_btc = ''bc1''\<rparr>]\<rparr>
   = (False,
      \<lparr>addresses = \<lparr>bep20 = [''0xa''], trc20 = [''T1''], btc = [''bc1'']\<rparr>,
       addressDetails =
         [\<lparr>w_userId = ''u1'', w_bep20 = ''0xa'', w_trc20 = ''T1'', w_btc = ''bc1''\<rparr>]\<rparr>)"
  using fetchAddresses_failure_keeps_snapshot
          [of "Response \<lparr>success = False, bep20Addresses = [''0xb''], trc20Addresses = [],
                         btcAddresses = [], detailed = []\<rparr>"
              "\<lparr>addresses = \<lparr>bep20 = [''0xa''], trc20 = [''T1''], btc = [''bc1'']\<rparr>,
               addressDetails =
                 [\<lparr>w_userId = ''u1'', w_bep20 = ''0xa'', w_trc20 = ''T1'', w_btc = ''bc1''\<rparr>]\<rparr>"]
  by simp


section \<open>The polling loops and the dedup set\<close>

lemma btc_rt_scan_dedup:
  "p \<subseteq> snd (btc_rt_scan dir a pr txs p)
   \<and> (\<forall>ds. fst (btc_rt_scan dir a pr txs p) = Inr ds \<longrightarrow>
          distinct (map txHash ds) \<and> txHash ` set ds \<inter> p = {}
          \<and> snd (btc_rt_scan dir a pr txs p) = p \<union> txHash ` set ds)"
proof (induction txs arbitrary: p)
  case Nil
  show ?case by simp
next
  case (Cons tx txs)
  note ih = Cons.IH
  show ?case
    using ih[of p] ih[of "insert (btc_hash tx) p"]
    by (auto simp: Let_def case_prod_beta split: sum.splits)
qed

lemma btc_scan_dedup:
  "p \<subseteq> snd (btc_scan dir a txs p)
   \<and> (\<forall>ds. fst (btc_scan dir a txs p) = Inr ds \<longrightarrow>
          distinct (map txHash ds) \<and> txHash ` set ds \<inter> p = {}
          \<and> snd (btc_scan dir a txs p) = p \<union> txHash ` set ds)"
proof (induction txs arbitrary: p)
  case Nil
  show ?case by simp
next
  case (Cons tx txs)
  note ih = Cons.IH
  show ?case
    using ih[of p] ih[of "insert (btc_hash tx) p"]
    by (auto simp: Let_def case_prod_beta split: sum.splits)
qed

lemma trc20_scan_dedup:
  "p \<subseteq> snd (trc20_scan dir a txs p)
   \<and> (\<forall>ds. fst (trc20_scan dir a txs p) = Inr ds \<longrightarrow>
          distinct (map txHash ds) \<and> txHash ` set ds \<inter> p = {}
          \<and> snd (trc20_scan dir a txs p) = p \<union> txHash ` set ds)"
proof (induction txs arbitrary: p)
  case Nil
  show ?case by simp
next
  case (Cons tx txs)
  note ih = Cons.IH
  show ?case
    using ih[of p] ih[of "insert (transaction_id tx) p"]
    by (auto simp: Let_def case_prod_beta split: sum.splits)
qed

lemma bep20_scan_dedup:
  "p \<subseteq> snd (bep20_scan dir a txs p)
   \<and> (\<forall>ds. fst (bep20_scan dir a txs p) = Inr ds \<longrightarrow>
          distinct (map txHash ds) \<and> txHash ` set ds \<inter> p = {}
          \<and> snd (bep20_scan dir a txs p) = p \<union> txHash ` set ds)"
proof (induction txs arbitrary: p)
  case Nil
  show ?case by simp
next
  case (Cons tx txs)
  note ih = Cons.IH
  show ?case
    using ih[of p] ih[of "insert (bsc_hash tx) p"]
    by (auto simp: Let_def case_prod_beta split: sum.splits)
qed

lemma dedup_stepD:
  assumes "dedup_step f"
  shows "distinct (map txHash (fst (f p)))" "txHash ` set (fst (f p)) \<inter> p = {}"
        "p \<union> txHash ` set (fst (f p)) \<subseteq> snd (f p)"
  using assms unfolding dedup_step_def by blast+

lemma catch_emptyD:
  "d \<in> set (fst (catch_empty r)) \<Longrightarrow> \<exists>ds. fst r = Inr ds \<and> d \<in> set ds"
  by (cases "fst r") (auto simp: catch_empty_def)

lemma skip_dedup: "dedup_step (\<lambda>p. ([], p))"
  by (simp add: dedup_step_def)

lemma catch_empty_dedup:
  assumes "\<And>p. p \<subseteq> snd (g p)
             \<and> (\<forall>ds. fst (g p) = Inr ds \<longrightarrow>
                   distinct (map txHash ds) \<and> txHash ` set ds \<inter> p = {}
                   \<and> snd (g p) = p \<union> txHash ` set ds)"
  shows "dedup_step (\<lambda>p. catch_empty (g p))"
  unfolding dedup_step_def
proof
  fix p
  show "distinct (map txHash (fst (catch_empty (g p))))
        \<and> txHash ` set (fst (catch_empty (g p))) \<inter> p = {}
        \<and> p \<union> txHash ` set (fst (catch_empty (g p))) \<subseteq> snd (catch_empty (g p))"
  proof (cases "fst (g p)")
    case (Inl e)
    with assms[of p] show ?thesis by (simp add: catch_empty_def)
  next
    case (Inr ds)
    with assms[of p] show ?thesis by (simp add: catch_empty_def)
  qed
qed

lemma btc_checkAddress_dedup: "dedup_step (btc_checkAddress dir a r)"
proof (cases r)
  case NetworkError
  then have "btc_checkAddress dir a r = (\<lambda>p. ([], p))"
    by (intro ext) (simp add: btc_checkAddress_def)
  then show ?thesis by (simp add: skip_dedup)
next
  case (Response body)
  show ?thesis
  proof (cases body)
    case None
    with Response have "btc_checkAddress dir a r = (\<lambda>p. ([], p))"
      by (intro ext) (simp add: btc_checkAddress_def)
    then show ?thesis by (simp add: skip_dedup)
  next
    case (Some txs)
    with Response have "btc_checkAddress dir a r = (\<lambda>p. catch_empty (btc_scan dir a txs p))"
      by (intro ext) (simp add: btc_checkAddress_def)
    then show ?thesis using catch_empty_dedup[of "btc_scan dir a txs"] btc_scan_dedup by simp
  qed
qed

lemma btc_rt_checkAddress_dedup: "dedup_step (btc_rt_checkAddress dir a r pr)"
proof (cases r)
  case NetworkError
  then have "btc_rt_checkAddress dir a r pr = (\<lambda>p. ([], p))"
    by (intro ext) (simp add: btc_rt_checkAddress_def)
  then show ?thesis by (simp add: skip_dedup)
next
  case (Response body)
  show ?thesis
  proof (cases body)
    case None
    with Response have "btc_rt_checkAddress dir a r pr = (\<lambda>p. ([], p))"
      by (intro ext) (simp add: btc_rt_checkAddress_def)
    then show ?thesis by (simp add: skip_dedup)
  next
    case (Some txs)
    with Response have "btc_rt_checkAddress dir a r pr =
        (\<lambda>p. catch_empty (btc_rt_scan dir a (getBtcPrice pr) txs p))"
      by (intro ext) (simp add: btc_rt_checkAddress_def)
    then show ?thesis
      using catch_empty_dedup[of "btc_rt_scan dir a (getBtcPrice pr) txs"] btc_rt_scan_dedup
      by simp
  qed
qed

lemma trc20_checkAddress_dedup: "dedup_step (trc20_checkAddress dir a r)"
proof (cases r)
  case NetworkError
  then have "trc20_checkAddress dir a r = (\<lambda>p. ([], p))"
    by (intro ext) (simp add: trc20_checkAddress_def)
  then show ?thesis by (simp add: skip_dedup)
next
  case (Response body)
  show ?thesis
  proof (cases "trc_success body")
    case False
    with Response have "trc20_checkAddress dir a r = (\<lambda>p. ([], p))"
      by (intro ext) (simp add: trc20_checkAddress_def)
    then show ?thesis by (simp add: skip_dedup)
  next
    case True
    let ?txs = "case trc_data body of None \<Rightarrow> [] | Some l \<Rightarrow> l"
    from True Response have "trc20_checkAddress dir a r =
        (\<lambda>p. catch_empty (trc20_scan dir a ?txs p))"
      by (intro ext) (simp add: trc20_checkAddress_def)
    then show ?thesis
      using catch_empty_dedup[of "trc20_scan dir a ?txs"] trc20_scan_dedup by simp
  qed
qed

lemma bep20_checkAddress_dedup: "dedup_step (bep20_checkAddress dir a r)"
proof (cases r)
  case NetworkError
  then have "bep20_checkAddress dir a r = (\<lambda>p. ([], p))"
    by (intro ext) (simp add: bep20_checkAddress_def)
  then show ?thesis by (simp add: skip_dedup)
next
  case (Response body)
  show ?thesis
  proof (cases "status body = ''1''")
    case False
    with Response have "bep20_checkAddress dir a r = (\<lambda>p. ([], p))"
      by (intro ext) (simp add: bep20_checkAddress_def)
    then show ?thesis by (simp add: skip_dedup)
  next
    case True
    let ?txs = "case result body of None \<Rightarrow> [] | Some l \<Rightarrow> l"
    from True Response have "bep20_checkAddress dir a r =
        (\<lambda>p. catch_empty (bep20_scan dir a ?txs p))"
      by (intro ext) (simp add: bep20_checkAddress_def)
    then show ?thesis
      using catch_empty_dedup[of "bep20_scan dir a ?txs"] bep20_scan_dedup by simp
  qed
qed

section \<open>The UTXO push handler never returns a deposit\<close>

lemma btc_rt_outputs_no_deposit:
  "btc_rt_outputs dir now tx addrs outs = Inr ds \<Longrightarrow> ds = []"
  by (induction outs)
     (auto simp: btcPrice_in_processRealTimeTransaction_def Let_def split: option.splits if_splits)

lemma btc_push_silent: "btc_rt_processRealTimeTransaction dir now tx p = ([], p)"
  by (auto simp: btc_rt_processRealTimeTransaction_def
           split: option.splits sum.splits dest: btc_rt_outputs_no_deposit)

text \<open>
  C4. For every inbound frame, every directory and every dedup set, the UTXO watcher's
  \<open>processRealTimeTransaction\<close> returns the empty sequence and leaves the dedup set as
  it was: an output that pays a watched address with an owner reaches the read of
  \<open>btcPrice\<close>, which is not bound there, and the catch block turns the throw into the
  empty result; a frame without such an output finds no deposit, so its hash is not
  added either.
\<close>

theorem btc_push_returns_nothing:
  "btc_rt_processRealTimeTransaction dir now tx processedTxs = ([], processedTxs)"
proof (cases "px_hash tx \<in> processedTxs")
  case True
  then show ?thesis by (simp add: btc_rt_processRealTimeTransaction_def)
next
  case False
  show ?thesis
  proof (cases "px_out tx")
    case None
    with False show ?thesis by (simp add: btc_rt_processRealTimeTransaction_def)
  next
    case (Some outs)
    show ?thesis
    proof (cases "btc_rt_outputs dir now tx (btc (getAddresses dir)) outs")
      case (Inl e)
      with False Some show ?thesis by (simp add: btc_rt_processRealTimeTransaction_def)
    next
      case (Inr deposits)
      then have "deposits = []" by (rule btc_rt_outputs_no_deposit)
      with False Some Inr show ?thesis by (simp add: btc_rt_processRealTimeTransaction_def)
    qed
  qed
qed

theorem btc_push_returns_nothing_witness:
  "btc_rt_outputs one_user 1700000000123 frame_T1 [''bc1qa'']
       [\<lparr>po_addr = Some ''bc1qa'', po_value = 150000000\<rparr>] = Inl ReferenceError
   \<and> btc_rt_processRealTimeTransaction one_user 1700000000123 frame_T1 {} = ([], {})"
  using btc_push_returns_nothing[of one_user 1700000000123 frame_T1 "{}"]
  by (simp add: scenario_defs service_defs)

section \<open>At most one deposit per hash and watcher\<close>

lemma btc_push_dedup: "dedup_step (btc_rt_processRealTimeTransaction dir now tx)"
  by (simp add: dedup_step_def btc_push_silent)

lemma bep20_push_dedup: "dedup_step (bep20_processRealTimeTransaction dir now tx)"
  by (auto simp: dedup_step_def bep20_processRealTimeTransaction_def Let_def)

lemma lifetime_dedup:
  assumes poll: "\<And>dir a. dedup_step (poll dir a)"
      and push: "\<And>dir b. dedup_step (push dir b)"
  shows "distinct (map txHash (lifetime poll push es dir p))
         \<and> txHash ` set (lifetime poll push es dir p) \<inter> p = {}"
proof (induction es arbitrary: dir p)
  case Nil
  show ?case by simp
next
  case (Cons e es)
  show ?case
  proof (cases e)
    case (Poll a)
    let ?r = "poll dir a p"
    have ih: "distinct (map txHash (lifetime poll push es dir (snd ?r)))"
             "txHash ` set (lifetime poll push es dir (snd ?r)) \<inter> snd ?r = {}"
      using Cons.IH[of dir "snd ?r"] by blast+
    have st: "distinct (map txHash (fst ?r))" "txHash ` set (fst ?r) \<inter> p = {}"
             "p \<union> txHash ` set (fst ?r) \<subseteq> snd ?r"
      using dedup_stepD[OF poll[of dir a], of p] by blast+
    from ih(2) st(3) have apart:
      "txHash ` set (fst ?r) \<inter> txHash ` set (lifetime poll push es dir (snd ?r)) = {}"
      "txHash ` set (lifetime poll push es dir (snd ?r)) \<inter> p = {}"
      by blast+
    from ih(1) st(1,2) apart show ?thesis
      unfolding Poll by (simp add: case_prod_beta image_Un Int_Un_distrib2)
  next
    case (Push b)
    let ?r = "push dir b p"
    have ih: "distinct (map txHash (lifetime poll push es dir (snd ?r)))"
             "txHash ` set (lifetime poll push es dir (snd ?r)) \<inter> snd ?r = {}"
      using Cons.IH[of dir "snd ?r"] by blast+
    have st: "distinct (map txHash (fst ?r))" "txHash ` set (fst ?r) \<inter> p = {}"
             "p \<union> txHash ` set (fst ?r) \<subseteq> snd ?r"
      using dedup_stepD[OF push[of dir b], of p] by blast+
    from ih(2) st(3) have apart:
      "txHash ` set (fst ?r) \<inter> txHash ` set (lifetime poll push es dir (snd ?r)) = {}"
      "txHash ` set (lifetime poll push es dir (snd ?r)) \<inter> p = {}"
      by blast+
    from ih(1) st(1,2) apart show ?thesis
      unfolding Push by (simp add: case_prod_beta image_Un Int_Un_distrib2)
  next
    case (Refresh r)
    then show ?thesis using Cons.IH by simp
  qed
qed

lemma distinct_occurs_le_one:
  "distinct ys \<Longrightarrow> length (filter (\<lambda>y. y = h) ys) \<le> 1"
  by (induction ys) (auto simp: filter_empty_conv)

lemma distinct_count_le_one:
  assumes "distinct (map f xs)"
  shows "length (filter (\<lambda>x. f x = h) xs) \<le> 1"
proof -
  have "length (filter (\<lambda>x. f x = h) xs) = length (filter (\<lambda>y. y = h) (map f xs))"
    by (simp add: filter_map comp_def)
  with distinct_occurs_le_one[OF assms, of h] show ?thesis by simp
qed

text \<open>
  C1. Over any process lifetime (any sequence of polls, push events and directory
  refreshes, in any order, from the empty dedup set), each watcher emits at most one
  deposit with a given transaction hash: the UTXO watcher (with the channel and
  without), the account-chain-A watcher and the account-chain-B watcher.
\<close>

theorem at_most_one_deposit_per_hash:
  "length (filter (\<lambda>d. txHash d = h) (btc_emitted es1)) \<le> 1
   \<and> length (filter (\<lambda>d. txHash d = h) (bep20_emitted es2)) \<le> 1
   \<and> length (filter (\<lambda>d. txHash d = h) (trc20_emitted es3)) \<le> 1
   \<and> length (filter (\<lambda>d. txHash d = h) (btc_polling_emitted es4)) \<le> 1"
proof (intro conjI)
  show "length (filter (\<lambda>d. txHash d = h) (btc_polling_emitted es4)) \<le> 1"
    unfolding btc_polling_emitted_def
    by (rule distinct_count_le_one, rule conjunct1, rule lifetime_dedup)
       (auto simp: case_prod_beta btc_checkAddress_dedup)
  show "length (filter (\<lambda>d. txHash d = h) (btc_emitted es1)) \<le> 1"
    unfolding btc_emitted_def
    by (rule distinct_count_le_one, rule conjunct1, rule lifetime_dedup)
       (auto simp: case_prod_beta btc_rt_checkAddress_dedup btc_push_dedup)
  show "length (filter (\<lambda>d. txHash d = h) (bep20_emitted es2)) \<le> 1"
    unfolding bep20_emitted_def
    by (rule distinct_count_le_one, rule conjunct1, rule lifetime_dedup)
       (auto simp: case_prod_beta bep20_checkAddress_dedup bep20_push_dedup)
  show "length (filter (\<lambda>d. txHash d = h) (trc20_emitted es3)) \<le> 1"
    unfolding trc20_emitted_def
    by (rule distinct_count_le_one, rule conjunct1, rule lifetime_dedup)
       (auto simp: case_prod_beta trc20_checkAddress_dedup)
qed

theorem at_most_one_deposit_per_hash_witness:
  "map txHash (bep20_emitted
       [Refresh (Response one_user_payload), Push (1700000000123, event_B1),
        Poll (''0xabc1'', Response \<lparr>status = ''1'', result = Some [transfer_B1]\<rparr>)]) = [''b1'']
   \<and> map txHash (bep20_emitted
       [Refresh (Response one_user_payload),
        Poll (''0xabc1'', Response \<lparr>status = ''1'', result = Some [transfer_B1]\<rparr>),
        Push (1700000000123, event_B1)]) = [''b1'']
   \<and> length (filter (\<lambda>d. txHash d = ''b1'') (bep20_emitted
       [Refresh (Response one_user_payload), Push (1700000000123, event_B1),
        Poll (''0xabc1'', Response \<lparr>status = ''1'', result = Some [transfer_B1]\<rparr>)])) \<le> 1"
  using at_most_one_deposit_per_hash
          [of "''b1''" "[]"
              "[Refresh (Response one_user_payload), Push (1700000000123, event_B1),
                Poll (''0xabc1'', Response \<lparr>status = ''1'', result = Some [transfer_B1]\<rparr>)]"
              "[]" "[]"]
  by (simp add: bep20_emitted_def scenario_defs service_defs)



section \<open>Amounts of polled UTXO deposits\<close>

lemma foldl_plus_sum_list:
  "foldl (\<lambda>sum output. sum + f output) a xs = a + sum_list (map f xs)"
  by (induction xs arbitrary: a) (auto simp: add.assoc)

lemma totalReceived_sum:
  "totalReceived address tx = (\<Sum>output\<leftarrow>receivedOutputs address tx. out_value output)"
  by (simp add: totalReceived_def foldl_plus_sum_list)

lemma btc_scan_amount:
  assumes "fst (btc_scan dir a txs p) = Inr ds" "d \<in> set ds"
  shows "\<exists>tx\<in>set txs. txHash d = btc_hash tx \<and> to_address d = a
             \<and> amount d = of_int (totalReceived a tx) / 100000000"
proof -
  have "\<forall>ds. fst (btc_scan dir a txs p) = Inr ds \<longrightarrow>
          (\<forall>d\<in>set ds. \<exists>tx\<in>set txs. txHash d = btc_hash tx \<and> to_address d = a
             \<and> amount d = of_int (totalReceived a tx) / 100000000)"
  proof (induction txs arbitrary: p)
    case Nil
    show ?case by simp
  next
    case (Cons tx txs)
    note ih = Cons.IH
    show ?case
      using ih[of p] ih[of "insert (btc_hash tx) p"]
      by (fastforce simp: Let_def case_prod_beta split: sum.splits if_splits)
  qed
  with assms show ?thesis by blast
qed

lemma btc_rt_scan_amount:
  assumes "fst (btc_rt_scan dir a pr txs p) = Inr ds" "d \<in> set ds"
  shows "\<exists>tx\<in>set txs. txHash d = btc_hash tx \<and> to_address d = a
             \<and> amount d = times_price (of_int (totalReceived a tx) / 100000000) pr"
proof -
  have "\<forall>ds. fst (btc_rt_scan dir a pr txs p) = Inr ds \<longrightarrow>
          (\<forall>d\<in>set ds. \<exists>tx\<in>set txs. txHash d = btc_hash tx \<and> to_address d = a
             \<and> amount d = times_price (of_int (totalReceived a tx) / 100000000) pr)"
  proof (induction txs arbitrary: p)
    case Nil
    show ?case by simp
  next
    case (Cons tx txs)
    note ih = Cons.IH
    show ?case
      using ih[of p] ih[of "insert (btc_hash tx) p"]
      by (fastforce simp: Let_def case_prod_beta split: sum.splits if_splits)
  qed
  with assms show ?thesis by blast
qed

text \<open>
  C2 as stated fails in the watcher with the price lookup. One transaction pays
  150000000 satoshi to the watched address, so the claim asks for the amount 3/2. With a
  quoted price of 60000 the deposit's amount is 90000, and with a failed price lookup it
  is 0.
\<close>

theorem btc_rt_amount_is_not_satoshi_over_1e8:
  "map amount (fst (btc_rt_checkAddress one_user ''bc1qa'' (Response (Some [utxo_T1]))
                      (Response 60000) {})) = [90000]
   \<and> map amount (fst (btc_rt_checkAddress one_user ''bc1qa'' (Response (Some [utxo_T1]))
                      NetworkError {})) = [0]
   \<and> of_int (\<Sum>output\<leftarrow>receivedOutputs ''bc1qa'' utxo_T1. out_value output) / 100000000
        = (3 / 2 :: rat)"
  by (simp add: scenario_defs service_defs)

text \<open>
  C2, amended. Every deposit that the polling path of the UTXO watcher without price
  lookup returns for a transaction has as amount the sum in satoshi of that
  transaction's outputs paying the watched address, divided by 100000000. In the
  watcher with the price lookup, when the lookup succeeds, the amount is that quotient
  multiplied by the quoted price.
\<close>

theorem btc_poll_amount:
  "(d \<in> set (fst (btc_checkAddress dir a (Response (Some txs)) p)) \<longrightarrow>
      (\<exists>tx\<in>set txs. txHash d = btc_hash tx
         \<and> amount d = of_int (\<Sum>output\<leftarrow>receivedOutputs a tx. out_value output) / 100000000))
   \<and> (d' \<in> set (fst (btc_rt_checkAddress dir a (Response (Some txs)) (Response usd) p)) \<longrightarrow>
      (\<exists>tx\<in>set txs. txHash d' = btc_hash tx
         \<and> amount d' = of_int (\<Sum>output\<leftarrow>receivedOutputs a tx. out_value output) / 100000000 * usd))"
proof (intro conjI impI)
  assume "d \<in> set (fst (btc_checkAddress dir a (Response (Some txs)) p))"
  then have "d \<in> set (fst (catch_empty (btc_scan dir a txs p)))"
    by (simp add: btc_checkAddress_def)
  then obtain ds where "fst (btc_scan dir a txs p) = Inr ds" "d \<in> set ds"
    using catch_emptyD by blast
  from btc_scan_amount[OF this]
  show "\<exists>tx\<in>set txs. txHash d = btc_hash tx
          \<and> amount d = of_int (\<Sum>output\<leftarrow>receivedOutputs a tx. out_value output) / 100000000"
    by (auto simp: totalReceived_sum)
next
  assume "d' \<in> set (fst (btc_rt_checkAddress dir a (Response (Some txs)) (Response usd) p))"
  then have "d' \<in> set (fst (catch_empty (btc_rt_scan dir a (Some usd) txs p)))"
    by (simp add: btc_rt_checkAddress_def getBtcPrice_def)
  then obtain ds where "fst (btc_rt_scan dir a (Some usd) txs p) = Inr ds" "d' \<in> set ds"
    using catch_emptyD by blast
  from btc_rt_scan_amount[OF this]
  show "\<exists>tx\<in>set txs. txHash d' = btc_hash tx
          \<and> amount d' = of_int (\<Sum>output\<leftarrow>receivedOutputs a tx. out_value output) / 100000000 * usd"
    by (auto simp: totalReceived_sum times_price_def)
qed

theorem btc_poll_amount_witness:
  "fst (btc_checkAddress one_user ''bc1qa'' (Response (Some [utxo_T1])) {}) = [paid 1]
   \<and> fst (btc_rt_checkAddress one_user ''bc1qa'' (Response (Some [utxo_T1])) (Response 60000) {})
       = [paid 60000]
   \<and> amount (paid 1) = 3 / 2 \<and> amount (paid 60000) = 3 / 2 * 60000"
proof -
  have run: "fst (btc_checkAddress one_user ''bc1qa'' (Response (Some [utxo_T1])) {}) = [paid 1]"
    "fst (btc_rt_checkAddress one_user ''bc1qa'' (Response (Some [utxo_T1])) (Response 60000) {})
       = [paid 60000]"
    by (simp_all add: paid_def scenario_defs service_defs)
  have total: "of_int (\<Sum>output\<leftarrow>receivedOutputs ''bc1qa'' utxo_T1. out_value output) / 100000000
                 = (3 / 2 :: rat)"
    by (simp add: utxo_T1_def receivedOutputs_def)
  from btc_poll_amount[of "paid 1" one_user "''bc1qa''" "[utxo_T1]" "{}" "paid 60000" 60000]
       run total
  show ?thesis by simp
qed

section \<open>Amounts of account-chain-B deposits\<close>

lemma trc20_scan_amount:
  assumes "fst (trc20_scan dir a txs p) = Inr ds" "d \<in> set ds"
  shows "\<exists>tx\<in>set txs. txHash d = transaction_id tx
             \<and> amount d = of_int (trc_value tx) / 10 ^ js_or (token_decimals tx) 6"
proof -
  have "\<forall>ds. fst (trc20_scan dir a txs p) = Inr ds \<longrightarrow>
          (\<forall>d\<in>set ds. \<exists>tx\<in>set txs. txHash d = transaction_id tx
             \<and> amount d = of_int (trc_value tx) / 10 ^ js_or (token_decimals tx) 6)"
  proof (induction txs arbitrary: p)
    case Nil
    show ?case by simp
  next
    case (Cons tx txs)
    note ih = Cons.IH
    show ?case
      using ih[of p] ih[of "insert (transaction_id tx) p"]
      by (fastforce simp: Let_def case_prod_beta split: sum.splits if_splits)
  qed
  with assms show ?thesis by blast
qed

text \<open>
  C7 as stated fails when the token metadata reports zero decimals: \<open>decimals || 6\<close>
  takes 6 for it. The transfer has raw value 1000000, so the claim asks for
  1000000 / 10^0; the deposit's amount is 1.
\<close>

theorem trc20_zero_decimals_counterexample:
  "map amount (fst (trc20_checkAddress one_user ''TXa1''
          (Response \<lparr>trc_success = True, trc_data = Some [transfer_R (Some 0)]\<rparr>) {}))
     = [1]
   \<and> token_decimals (transfer_R (Some 0)) = Some 0
   \<and> of_int (trc_value (transfer_R (Some 0))) / 10 ^ 0 = (1000000 :: rat)"
  by (simp add: scenario_defs service_defs)

text \<open>
  C7, amended. Every account-chain-B deposit has the amount rawValue / 10^decimals of the
  transfer it was made from, where decimals is read from the transfer's token metadata
  and is 6 when the provider omits it or reports 0.
\<close>

theorem trc20_amount:
  assumes "d \<in> set (fst (trc20_checkAddress dir a r p))"
  shows "\<exists>txs tx. r = Response \<lparr>trc_success = True, trc_data = Some txs\<rparr> \<and> tx \<in> set txs
           \<and> txHash d = transaction_id tx
           \<and> amount d = of_int (trc_value tx) /
               10 ^ (if token_decimals tx = None \<or> token_decimals tx = Some 0 then 6
                     else the (token_decimals tx))"
proof -
  from assms obtain pl where r: "r = Response pl" and ok: "trc_success pl"
    by (auto simp: trc20_checkAddress_def split: http.splits if_splits)
  from assms r ok obtain txs where txs: "trc_data pl = Some txs"
    by (cases "trc_data pl") (auto simp: trc20_checkAddress_def catch_empty_def)
  from assms r ok txs have "d \<in> set (fst (catch_empty (trc20_scan dir a txs p)))"
    by (simp add: trc20_checkAddress_def)
  then obtain ds where "fst (trc20_scan dir a txs p) = Inr ds" "d \<in> set ds"
    using catch_emptyD by blast
  from trc20_scan_amount[OF this] obtain tx where
    "tx \<in> set txs" "txHash d = transaction_id tx"
    "amount d = of_int (trc_value tx) / 10 ^ js_or (token_decimals tx) 6" by blast
  moreover have "pl = \<lparr>trc_success = True, trc_data = Some txs\<rparr>"
    using ok txs by (cases pl) simp
  ultimately show ?thesis using r
    by (auto simp: js_or_def split: option.splits)
qed

theorem trc20_amount_witness:
  "fst (trc20_checkAddress one_user ''TXa1''
          (Response \<lparr>trc_success = True, trc_data = Some [transfer_R (Some 6)]\<rparr>) {})
     = [credited]
   \<and> fst (trc20_checkAddress one_user ''TXa1''
          (Response \<lparr>trc_success = True, trc_data = Some [transfer_R None]\<rparr>) {})
     = [credited]
   \<and> amount credited = 1000000 / 10 ^ 6"
proof -
  have run: "fst (trc20_checkAddress one_user ''TXa1''
               (Response \<lparr>trc_success = True, trc_data = Some [transfer_R (Some 6)]\<rparr>) {})
             = [credited]"
    "fst (trc20_checkAddress one_user ''TXa1''
               (Response \<lparr>trc_success = True, trc_data = Some [transfer_R None]\<rparr>) {})
             = [credited]"
    by (simp_all add: credited_def scenario_defs service_defs)
  then have "credited \<in> set (fst (trc20_checkAddress one_user ''TXa1''
               (Response \<lparr>trc_success = True, trc_data = Some [transfer_R (Some 6)]\<rparr>) {}))"
    by simp
  from trc20_amount[OF this] have "amount credited = 1000000 / 10 ^ 6"
    by (simp add: transfer_R_def)
  with run show ?thesis by simp
qed

section \<open>Deposits of the push handlers\<close>

lemma bep20_push_shape:
  "d \<in> set (fst (bep20_processRealTimeTransaction dir now tx p)) \<Longrightarrow>
     confirmations d = 1 \<and> timestamp d = now"
  by (auto simp: bep20_processRealTimeTransaction_def Let_def split: if_splits)

text \<open>
  C3 as stated fails for the account-chain-A watcher: the deposit its push handler returns
  for a transfer to the user carries confirmations 1.
\<close>

theorem bep20_push_confirmations_counterexample:
  "map confirmations (fst (bep20_processRealTimeTransaction one_user 1700000000123 event_B1 {}))
     = [1]"
  by (simp add: scenario_defs service_defs)

text \<open>
  C3, amended. Every deposit that the account-chain-A push handler returns carries
  confirmations 1 and a timestamp equal to the receipt time (the clock the handler
  reads). The UTXO push handler, whose deposit would carry confirmations 0 and the
  receipt time, returns no deposit.
\<close>

theorem push_deposit_shape:
  "(d \<in> set (fst (bep20_processRealTimeTransaction dir now tx p)) \<longrightarrow>
      confirmations d = 1 \<and> timestamp d = now)
   \<and> fst (btc_rt_processRealTimeTransaction dir' now' tx' p') = []"
  using bep20_push_shape[of d dir now tx p] by (simp add: btc_push_silent)

theorem push_deposit_shape_witness:
  "fst (bep20_processRealTimeTransaction one_user 1700000000123 event_B1 {}) = [notified]
   \<and> confirmations notified = 1 \<and> timestamp notified = 1700000000123
   \<and> fst (btc_rt_processRealTimeTransaction one_user 1700000000123 frame_T1 {}) = []"
proof -
  have run: "fst (bep20_processRealTimeTransaction one_user 1700000000123 event_B1 {}) = [notified]"
    by (simp add: notified_def scenario_defs service_defs)
  with push_deposit_shape[of notified one_user 1700000000123 event_B1 "{}"
                             one_user 1700000000123 frame_T1 "{}"]
  show ?thesis by simp
qed

section \<open>Marked hashes and returned deposits\<close>

lemma btc_scan_no_owner:
  "\<not> truthy (getUserIdForAddress dir a ''btc'') \<Longrightarrow> btc_scan dir a txs p = (Inr [], p)"
  by (induction txs arbitrary: p) (auto simp: Let_def)

lemma btc_rt_scan_no_owner:
  "\<not> truthy (getUserIdForAddress dir a ''btc'') \<Longrightarrow> btc_rt_scan dir a pr txs p = (Inr [], p)"
  by (induction txs arbitrary: p) (auto simp: Let_def)

lemma trc20_scan_no_owner:
  "\<not> truthy (getUserIdForAddress dir a ''trc20'') \<Longrightarrow> trc20_scan dir a txs p = (Inr [], p)"
  by (induction txs arbitrary: p) (auto simp: Let_def)

lemma bep20_scan_no_owner:
  "\<not> truthy (getUserIdForAddress dir a ''bep20'') \<Longrightarrow> bep20_scan dir a txs p = (Inr [], p)"
  by (induction txs arbitrary: p) (auto simp: Let_def)

text \<open>
  In every polling \<open>checkAddress\<close>, when the owner lookup finds no user for the
  address, the call returns nothing and marks nothing.
\<close>

lemma no_owner_marks_nothing:
  "(\<not> truthy (getUserIdForAddress dir a ''btc'') \<longrightarrow>
      btc_checkAddress dir a r1 p = ([], p) \<and> btc_rt_checkAddress dir a r1 pr p = ([], p))
   \<and> (\<not> truthy (getUserIdForAddress dir a ''trc20'') \<longrightarrow> trc20_checkAddress dir a r2 p = ([], p))
   \<and> (\<not> truthy (getUserIdForAddress dir a ''bep20'') \<longrightarrow> bep20_checkAddress dir a r3 p = ([], p))"
  by (auto simp: btc_checkAddress_def btc_rt_checkAddress_def trc20_checkAddress_def
                 bep20_checkAddress_def catch_empty_def btc_scan_no_owner btc_rt_scan_no_owner
                 trc20_scan_no_owner bep20_scan_no_owner
           split: http.splits option.splits)

text \<open>
  C10 on a provider answer with two transfers to the user's address, the second with a
  timestamp that \<open>toISOString\<close> rejects. The claim says that a hash enters the dedup set
  only when a deposit is emitted for it. In each polling \<open>checkAddress\<close> (both UTXO
  modules, account-chain-B, account-chain-A) the first transfer's deposit is pushed and
  its hash added, the log line of the second throws, and the catch block returns the
  empty array: no deposit is emitted, and the first hash is in the set. A later check of
  an answer with only the first transfer skips it, so its deposit is never emitted.
\<close>

theorem hash_marked_without_deposit_after_throw:
  "btc_checkAddress one_user ''bc1qa'' (Response (Some [utxo_T1, utxo_T2])) {} = ([], {''t1''})
   \<and> btc_checkAddress one_user ''bc1qa'' (Response (Some [utxo_T1])) {''t1''} = ([], {''t1''})
   \<and> btc_rt_checkAddress one_user ''bc1qa'' (Response (Some [utxo_T1, utxo_T2]))
        (Response 60000) {} = ([], {''t1''})
   \<and> trc20_checkAddress one_user ''TXa1''
        (Response \<lparr>trc_success = True, trc_data = Some [transfer_R (Some 6), transfer_R2]\<rparr>) {}
       = ([], {''r1''})
   \<and> bep20_checkAddress one_user ''0xabc1''
        (Response \<lparr>status = ''1'', result = Some [transfer_B1, transfer_B2]\<rparr>) {}
       = ([], {''b1''})"
  by (simp add: scenario_defs service_defs)

section \<open>One check cycle\<close>

lemma bep20_checkAll_fields:
  "effects (snd (bep20_checkAllAddresses env m)) = effects m @ [CheckAll ''bep20'']"
  "snapshot (snd (bep20_checkAllAddresses env m)) = snapshot m"
  "trc20_processedTxs (snd (bep20_checkAllAddresses env m)) = trc20_processedTxs m"
  "btc_processedTxs (snd (bep20_checkAllAddresses env m)) = btc_processedTxs m"
  by (simp_all add: bep20_checkAllAddresses_def Let_def case_prod_beta)

lemma trc20_checkAll_fields:
  "effects (snd (trc20_checkAllAddresses env m)) = effects m @ [CheckAll ''trc20'']"
  "snapshot (snd (trc20_checkAllAddresses env m)) = snapshot m"
  "bep20_processedTxs (snd (trc20_checkAllAddresses env m)) = bep20_processedTxs m"
  "btc_processedTxs (snd (trc20_checkAllAddresses env m)) = btc_processedTxs m"
  by (simp_all add: trc20_checkAllAddresses_def Let_def case_prod_beta)

lemma btc_checkAll_fields:
  "effects (snd (btc_checkAllAddresses env m)) = effects m @ [CheckAll ''btc'']"
  "snapshot (snd (btc_checkAllAddresses env m)) = snapshot m"
  by (simp_all add: btc_checkAllAddresses_def Let_def case_prod_beta)

lemma trc20_checkAll_result:
  "snapshot m' = snapshot m \<Longrightarrow> trc20_processedTxs m' = trc20_processedTxs m \<Longrightarrow>
     fst (trc20_checkAllAddresses env m') = fst (trc20_checkAllAddresses env m)"
  by (simp add: trc20_checkAllAddresses_def Let_def case_prod_beta)

lemma btc_checkAll_result:
  "snapshot m' = snapshot m \<Longrightarrow> btc_processedTxs m' = btc_processedTxs m \<Longrightarrow>
     fst (btc_checkAllAddresses env m') = fst (btc_checkAllAddresses env m)"
  by (simp add: btc_checkAllAddresses_def Let_def case_prod_beta)

text \<open>
  C9. \<open>checkDeposits\<close> runs the watchers' \<open>checkAllAddresses\<close> in the order
  account-chain-A, account-chain-B, UTXO; its result is their results concatenated in
  that order (each watcher's result is what it returns on the state before the cycle,
  since no watcher touches another's dedup set); and it posts to the delivery boundary
  once, with the whole result, when the result is not empty, and not at all when it is
  empty.
\<close>

theorem checkDeposits_order_and_delivery:
  "fst (checkDeposits env m) =
     fst (bep20_checkAllAddresses env m) @ fst (trc20_checkAllAddresses env m)
       @ fst (btc_checkAllAddresses env m)
   \<and> effects (snd (checkDeposits env m)) =
       effects m @ [CheckAll ''bep20'', CheckAll ''trc20'', CheckAll ''btc'']
         @ (if fst (checkDeposits env m) = [] then []
            else [PostDeposits (fst (checkDeposits env m))])"
proof -
  let ?m1 = "snd (bep20_checkAllAddresses env m)"
  let ?m2 = "snd (trc20_checkAllAddresses env ?m1)"
  let ?m3 = "snd (btc_checkAllAddresses env ?m2)"
  let ?all = "fst (bep20_checkAllAddresses env m) @ fst (trc20_checkAllAddresses env ?m1)
                @ fst (btc_checkAllAddresses env ?m2)"
  have res: "fst (checkDeposits env m) = ?all"
    by (simp add: checkDeposits_def Let_def case_prod_beta)
  have t: "fst (trc20_checkAllAddresses env ?m1) = fst (trc20_checkAllAddresses env m)"
    by (rule trc20_checkAll_result) (simp_all add: bep20_checkAll_fields)
  have b: "fst (btc_checkAllAddresses env ?m2) = fst (btc_checkAllAddresses env m)"
    by (rule btc_checkAll_result)
       (simp_all add: bep20_checkAll_fields trc20_checkAll_fields)
  have e3: "effects ?m3 = effects m @ [CheckAll ''bep20'', CheckAll ''trc20'', CheckAll ''btc'']"
    by (simp add: bep20_checkAll_fields trc20_checkAll_fields btc_checkAll_fields)
  have eff: "effects (snd (checkDeposits env m)) =
               effects ?m3 @ (if ?all = [] then [] else [PostDeposits ?all])"
    by (simp add: checkDeposits_def Let_def case_prod_beta processDeposits_def)
  from res t b e3 eff show ?thesis by simp
qed

theorem checkDeposits_order_and_delivery_witness:
  "fst (checkDeposits one_transfer fresh_monitor) = [polled]
   \<and> effects (snd (checkDeposits one_transfer fresh_monitor)) =
       [CheckAll ''bep20'', CheckAll ''trc20'', CheckAll ''btc'', PostDeposits [polled]]
   \<and> fst (checkDeposits one_transfer (snd (checkDeposits one_transfer fresh_monitor))) = []
   \<and> effects (snd (checkDeposits one_transfer (snd (checkDeposits one_transfer fresh_monitor)))) =
       [CheckAll ''bep20'', CheckAll ''trc20'', CheckAll ''btc'', PostDeposits [polled],
        CheckAll ''bep20'', CheckAll ''trc20'', CheckAll ''btc'']"
proof -
  have first: "checkDeposits one_transfer fresh_monitor =
      ([polled],
       \<lparr>snapshot = one_user, bep20_processedTxs = {''b1''}, trc20_processedTxs = {},
        btc_processedTxs = {},
        effects = [CheckAll ''bep20'', CheckAll ''trc20'', CheckAll ''btc'', PostDeposits [polled]]\<rparr>)"
    by (simp add: checkDeposits_def processDeposits_def bep20_checkAllAddresses_def
                  trc20_checkAllAddresses_def btc_checkAllAddresses_def one_transfer_def
                  fresh_monitor_def polled_def scenario_defs service_defs)
  have second: "fst (checkDeposits one_transfer
       \<lparr>snapshot = one_user, bep20_processedTxs = {''b1''}, trc20_processedTxs = {},
        btc_processedTxs = {},
        effects = [CheckAll ''bep20'', CheckAll ''trc20'', CheckAll ''btc'', PostDeposits [polled]]\<rparr>)
      = []"
    by (simp add: checkDeposits_def processDeposits_def bep20_checkAllAddresses_def
                  trc20_checkAllAddresses_def btc_checkAllAddresses_def one_transfer_def
                  scenario_defs service_defs)
  from checkDeposits_order_and_delivery[of one_transfer fresh_monitor]
       checkDeposits_order_and_delivery
         [of one_transfer "snd (checkDeposits one_transfer fresh_monitor)"]
       first second
  show ?thesis by simp
qed

section \<open>Reconnecting the push channel\<close>

lemma reconnect_inv_cases:
  "reconnect_inv c \<longleftrightarrow>
     timeouts c = [] \<or> (\<exists>h due. timeouts c = [(h, due)] \<and> wsReconnectTimeout c = Some h)"
  by (auto simp: reconnect_inv_def split: list.splits)

lemma reconnect_inv_initial: "reconnect_inv initial_channel"
  by (simp add: reconnect_inv_def initial_channel_def)

lemma reconnect_inv_sockets:
  "reconnect_inv (c\<lparr>sockets := s\<rparr>) = reconnect_inv c"
  by (simp add: reconnect_inv_cases)

lemma reconnectWebSocket_single:
  assumes "reconnect_inv c"
  shows "\<exists>h. timeouts (reconnectWebSocket now c) = [(h, now + WS_RECONNECT_DELAY)]
             \<and> wsReconnectTimeout (reconnectWebSocket now c) = Some h"
  using assms
  by (auto simp: reconnect_inv_cases reconnectWebSocket_def clearTimeout_def setTimeout_def
                 Let_def split: option.splits)

lemma reconnectWebSocket_inv:
  "reconnect_inv c \<Longrightarrow> reconnect_inv (reconnectWebSocket now c)"
  using reconnectWebSocket_single[of c now] by (auto simp: reconnect_inv_cases)

lemma startWebSocketMonitoring_clears:
  "reconnect_inv c \<Longrightarrow> timeouts (startWebSocketMonitoring connect c) = []"
  by (auto simp: reconnect_inv_cases startWebSocketMonitoring_def clearTimeout_def Let_def
           split: option.splits)

lemma clearTimeout_inv:
  assumes "reconnect_inv c"
  shows "reconnect_inv (clearTimeout h c)"
proof (cases "timeouts c")
  case Nil
  then show ?thesis by (simp add: reconnect_inv_cases clearTimeout_def)
next
  case (Cons x xs)
  with assms obtain h0 due where "timeouts c = [(h0, due)]" "wsReconnectTimeout c = Some h0"
    by (auto simp: reconnect_inv_cases)
  then show ?thesis
    by (cases "h0 = h") (simp_all add: reconnect_inv_cases clearTimeout_def)
qed

lemma ws_step_inv: "reconnect_inv c \<Longrightarrow> reconnect_inv (ws_step connect e c)"
proof (cases e)
  case Init
  assume "reconnect_inv c"
  then show ?thesis using Init
    by (simp add: reconnect_inv_cases startWebSocketMonitoring_clears)
next
  case (SocketError now)
  assume "reconnect_inv c"
  then show ?thesis using SocketError by (simp add: reconnectWebSocket_inv)
next
  case (SocketClose now s)
  assume "reconnect_inv c"
  then show ?thesis using SocketClose
    by (simp add: reconnectWebSocket_inv reconnect_inv_sockets)
next
  case (TimerFires now h)
  assume "reconnect_inv c"
  then show ?thesis using TimerFires
    by (auto simp: reconnect_inv_cases[of "startWebSocketMonitoring connect (clearTimeout h c)"]
                   startWebSocketMonitoring_clears clearTimeout_inv split: option.splits)
qed

lemma ws_run_inv: "reconnect_inv c \<Longrightarrow> reconnect_inv (ws_run connect es c)"
  unfolding ws_run_def
  by (induction es arbitrary: c) (auto simp: ws_step_inv)

lemma ws_run_snoc: "ws_run connect (es @ [e]) c = ws_step connect e (ws_run connect es c)"
  by (simp add: ws_run_def)

lemma disconnect_single:
  assumes "reconnect_inv c" "disconnect_time e = Some t"
  shows "map snd (timeouts (ws_step connect e c)) = [t + WS_RECONNECT_DELAY]"
proof (cases e)
  case Init
  with assms show ?thesis by simp
next
  case (SocketError now)
  with assms reconnectWebSocket_single[of c now] show ?thesis by auto
next
  case (SocketClose now s)
  with assms reconnectWebSocket_single[of "c\<lparr>sockets := removeAll s (sockets c)\<rparr>" now]
  show ?thesis by (auto simp: reconnect_inv_sockets)
next
  case (TimerFires now h)
  with assms show ?thesis by simp
qed

text \<open>
  C8. For a watcher's channel, after any sequence of events from the initial state at
  most one timeout is pending. After a close or an error event at time \<open>t\<close> exactly
  one timeout is pending, due at \<open>t + 5000\<close>; and after two such events in a row (a
  close and an error for the same disconnect, in either order) exactly one is pending,
  due 5000 after the second: the first one was cleared.
\<close>

theorem one_reconnect_pending:
  "length (timeouts (ws_run connect es initial_channel)) \<le> 1
   \<and> (disconnect_time e = Some t \<longrightarrow>
        map snd (timeouts (ws_run connect (es @ [e]) initial_channel)) = [t + 5000])
   \<and> (disconnect_time e1 = Some t1 \<and> disconnect_time e2 = Some t2 \<longrightarrow>
        map snd (timeouts (ws_run connect (es @ [e1, e2]) initial_channel)) = [t2 + 5000])"
proof (intro conjI impI)
  have inv: "reconnect_inv (ws_run connect es' initial_channel)" for es'
    by (rule ws_run_inv[OF reconnect_inv_initial])
  from inv[of es] show "length (timeouts (ws_run connect es initial_channel)) \<le> 1"
    by (auto simp: reconnect_inv_cases)
  show "map snd (timeouts (ws_run connect (es @ [e]) initial_channel)) = [t + 5000]"
    if "disconnect_time e = Some t"
    using disconnect_single[OF inv[of es] that, of connect]
    by (simp add: ws_run_snoc WS_RECONNECT_DELAY_def)
  show "map snd (timeouts (ws_run connect (es @ [e1, e2]) initial_channel)) = [t2 + 5000]"
    if "disconnect_time e1 = Some t1 \<and> disconnect_time e2 = Some t2"
  proof -
    have "es @ [e1, e2] = (es @ [e1]) @ [e2]" by simp
    with disconnect_single[OF inv[of "es @ [e1]"], of e2 t2 connect] that
    show ?thesis by (simp only: ws_run_snoc WS_RECONNECT_DELAY_def)
  qed
qed

theorem one_reconnect_pending_witness:
  "disconnect_time (SocketError 1000) = Some 1000
   \<and> disconnect_time (SocketClose 1002 0) = Some 1002
   \<and> timeouts (ws_run True [Init, SocketError 1000, SocketClose 1002 0] initial_channel)
       = [(2, 6002)]"
  using one_reconnect_pending[of True "[Init]" "SocketError 1000" 1000 "SocketError 1000" 1000
                                 "SocketClose 1002 0" 1002]
  by (simp add: ws_run_def initial_channel_def startWebSocketMonitoring_def
                reconnectWebSocket_def clearTimeout_def setTimeout_def WS_RECONNECT_DELAY_def
                Let_def)

section \<open>Stopping the monitor\<close>

lemma stopMonitoring_keeps_channels:
  "btc_ws (stopMonitoring s) = btc_ws s \<and> bep20_ws (stopMonitoring s) = bep20_ws s"
  by (simp add: stopMonitoring_def call_if_function_def bep20Service_stop_def
                trc20Service_stop_def btcService_stop_def trc20_stop_def clearInterval_def
                Let_def split: option.splits)

text \<open>
  C5 on the running monitor whose UTXO socket closed at time 1000. \<open>stopMonitoring\<close>
  clears every interval. The reconnect timeout of the UTXO watcher (handle 1, due at
  6000) is still pending afterwards and the account-chain-A socket (handle 0) is still
  open; when the timeout fires, the UTXO watcher opens a new socket (handle 2).
\<close>

theorem stopMonitoring_leaves_reconnect_pending:
  "intervals (stopMonitoring stalled_system) = []
   \<and> timeouts (btc_ws stalled_system) = [(1, 6000)]
   \<and> timeouts (btc_ws (stopMonitoring stalled_system)) = [(1, 6000)]
   \<and> sockets (bep20_ws (stopMonitoring stalled_system)) = [0]
   \<and> sockets (btc_ws (stopMonitoring stalled_system)) = []
   \<and> sockets (ws_step True (TimerFires 6000 1) (btc_ws (stopMonitoring stalled_system))) = [2]"
  by (simp add: stalled_system_def stopMonitoring_def call_if_function_def
                bep20Service_stop_def trc20Service_stop_def btcService_stop_def trc20_stop_def
                init_services_def startMonitoring_def initial_system_def initial_channel_def
                setInterval_def clearInterval_def trc20_startRealTimeMonitoring_def
                startWebSocketMonitoring_def reconnectWebSocket_def clearTimeout_def
                setTimeout_def WS_RECONNECT_DELAY_def Let_def)


end
